theory Spec2Isabelle
  imports Main "HOL-Library.Word" "HOL-Library.Multiset"
begin

chapter \<open>A verification model of miniredis\<close>

text \<open>
  The theory follows the three source files: \<^verbatim>\<open>cmd_string.go\<close> (the SET and GET
  handlers), \<^verbatim>\<open>server/server.go\<close> (the connection server, its peers and the dispatcher)
  and \<^verbatim>\<open>miniredis.go\<close> (the keyspace: numbered databases, WATCH, Dump, shuffle).
  Go maps are partial functions, a nil map or slice is \<open>None\<close>, a run-time panic is the value
  \<open>Inl\<close> of a sum, mutation is explicit state passing, and the objects that Go shares through
  pointers live in an explicit store.
\<close>

section \<open>Go run-time panics\<close>

datatype panic =
  IndexOutOfRange
| SliceBoundsOutOfRange
| InvalidArgumentToIntn

section \<open>cmd\_string.go: the SET and GET handlers\<close>

text \<open>
  The handlers read and write two fields of the receiver, \<^verbatim>\<open>m.stringKeys\<close> and
  \<^verbatim>\<open>m.expire\<close>, under \<^verbatim>\<open>m.Lock()\<close>. The struct declaration in \<^verbatim>\<open>miniredis.go\<close>
  does not declare these two fields, so they form a record of their own; the type of the
  expiry values is not fixed by the handlers and is a type parameter. The lock is held for the
  whole mutation, so a handler is an atomic state transformer.
\<close>

record 'e Keyspace =
  stringKeys :: "string \<rightharpoonup> string"
  expire :: "string \<rightharpoonup> 'e"

text \<open>
  What a handler sends through the \<^verbatim>\<open>redeo.Responder\<close>, one constructor per method the
  handlers call: \<^verbatim>\<open>WriteErrorString\<close> is an error reply, \<^verbatim>\<open>WriteOK\<close> the simple string OK,
  \<^verbatim>\<open>WriteNil\<close> the null bulk reply and \<^verbatim>\<open>WriteString\<close> a bulk string.
\<close>

datatype reply =
  WriteErrorString string
| WriteOK
| WriteNil
| WriteString string

text \<open>The \<^verbatim>\<open>error\<close> value a handler returns: \<open>None\<close> is Go's nil.\<close>

datatype cmd_error = errUnimplemented

type_synonym 'e handler_result = "panic + ('e Keyspace \<times> reply list \<times> cmd_error option)"

text \<open>
  The handler registered under \<^verbatim>\<open>"SET"\<close>. Its argument list is \<^verbatim>\<open>r.Args\<close>.
\<close>

definition handleSET :: "'e Keyspace \<Rightarrow> string list \<Rightarrow> 'e handler_result" where
  "handleSET m args =
     (if length args < 2 then Inr (m, [WriteErrorString ''Usage error''], None)
      else if length args > 2 then Inr (m, [], Some errUnimplemented)
      else
        let key = args ! 0; val = args ! 1 in
        Inr (m\<lparr>stringKeys := (stringKeys m)(key \<mapsto> val),
                expire := (expire m)(key := None)\<rparr>,
             [WriteOK], None))"

text \<open>
  The handler registered under \<^verbatim>\<open>"GET"\<close>. It reads \<^verbatim>\<open>r.Args[0]\<close> without a
  length check: on an empty argument list Go panics with an index out of range.
\<close>

definition handleGET :: "'e Keyspace \<Rightarrow> string list \<Rightarrow> 'e handler_result" where
  "handleGET m args =
     (case args of
        [] \<Rightarrow> Inl IndexOutOfRange
      | key # _ \<Rightarrow>
          (case stringKeys m key of
             None \<Rightarrow> Inr (m, [WriteNil], None)
           | Some val \<Rightarrow> Inr (m, [WriteString val], None)))"

section \<open>Formatting helpers of the Go library\<close>

text \<open>
  \<^verbatim>\<open>%d\<close> of \<^verbatim>\<open>fmt\<close>: the decimal digits of a number, with a minus sign before a
  negative one.
\<close>

definition digit :: "nat \<Rightarrow> char" where
  "digit d = ''0123456789'' ! d"

fun show_nat :: "nat \<Rightarrow> string" where
  "show_nat n = (if n < 10 then [digit n] else show_nat (n div 10) @ [digit (n mod 10)])"

definition show_int :: "int \<Rightarrow> string" where
  "show_int i = (if i < 0 then CHR ''-'' # show_nat (nat (- i)) else show_nat (nat i))"

definition CRLF :: string where
  "CRLF = [CHR 0x0D, CHR 0x0A]"

section \<open>server/server.go: the connection server\<close>

subsection \<open>The unknown-command message\<close>

definition errUnknownCommand :: "string \<Rightarrow> string list \<Rightarrow> string" where
  "errUnknownCommand cmd args =
     foldl (\<lambda>s a. s @ ''`'' @ a @ ''`, '')
       (''ERR unknown command `'' @ cmd @ ''`, with args beginning with: '')
       (if length args > 20 then take 20 args else args)"

subsection \<open>Sockets, peers and the reply writer\<close>

text \<open>
  A \<^verbatim>\<open>net.Conn\<close> as its client sees it: the bytes the server has written to the socket,
  and whether the server has closed it. A write to a closed socket fails and delivers nothing.
\<close>

record Conn =
  sent :: string
  conn_closed :: bool


text \<open>
  A \<^verbatim>\<open>Peer\<close>: \<open>peer_w\<close> holds the bytes that the \<^verbatim>\<open>bufio.Writer\<close> field \<^verbatim>\<open>w\<close> has
  buffered and not yet written to the socket, \<open>closed\<close> is the pending-close flag. The
  buffer is unbounded here: when its 4096 bytes fill up, \<^verbatim>\<open>bufio\<close> writes through to the
  socket early, in the same order, which does not change what the socket has received after a
  \<^verbatim>\<open>Flush\<close>. The fields \<^verbatim>\<open>Ctx\<close> and \<^verbatim>\<open>onDisconnect\<close> hold values and closures of the
  embedding program; the worker loop never reads the first and runs the second only after
  the loop has ended, so they are left out. Mutexes are left out: every method body is one
  atomic step.
\<close>

record Peer =
  peer_w :: string
  closed :: bool

text \<open>
  \<^verbatim>\<open>toInline\<close> is \<^verbatim>\<open>strings.Map\<close> with a closure that sends every rune for which
  \<^verbatim>\<open>unicode.IsSpace\<close> holds to a blank. A Go string is a byte string, and \<^verbatim>\<open>strings.Map\<close>
  reads it rune by rune as UTF-8. A rune is an \<^verbatim>\<open>int32\<close> code point.

  \<^verbatim>\<open>utf8.DecodeRuneInString\<close> gives the first rune and its width in bytes. The first
  byte fixes the size of the sequence and the range allowed for the second byte, which excludes
  overlong forms, surrogates and code points above \<^verbatim>\<open>U+10FFFF\<close>; the other bytes are
  continuation bytes. A byte that starts no valid sequence is the rune \<^verbatim>\<open>RuneError\<close> of
  width 1.
\<close>

type_synonym rune = int

definition RuneError :: rune where
  "RuneError = 0xFFFD"

fun DecodeRuneInString :: "string \<Rightarrow> rune \<times> nat" where
  "DecodeRuneInString [] = (RuneError, 0)"
| "DecodeRuneInString (c # cs) =
     (let p0 = (of_char c :: int) in
      if p0 < 0x80 then (p0, 1)
      else if p0 < 0xC2 \<or> 0xF4 < p0 then (RuneError, 1)
      else
        let sz = (if p0 < 0xE0 then 2 else if p0 < 0xF0 then 3 else 4 :: nat);
            lo = (if p0 = 0xE0 then 0xA0 else if p0 = 0xF0 then 0x90 else 0x80 :: int);
            hi = (if p0 = 0xED then 0x9F else if p0 = 0xF4 then 0x8F else 0xBF :: int)
        in if length (c # cs) < sz then (RuneError, 1)
           else
             let b1 = (of_char (cs ! 0) :: int) in
             if b1 < lo \<or> hi < b1 then (RuneError, 1)
             else if sz \<le> 2 then ((p0 mod 32) * 64 + b1 mod 64, 2)
             else
               let b2 = (of_char (cs ! 1) :: int) in
               if b2 < 0x80 \<or> 0xBF < b2 then (RuneError, 1)
               else if sz \<le> 3 then ((p0 mod 16) * 4096 + (b1 mod 64) * 64 + b2 mod 64, 3)
               else
                 let b3 = (of_char (cs ! 2) :: int) in
                 if b3 < 0x80 \<or> 0xBF < b3 then (RuneError, 1)
                 else ((p0 mod 8) * 262144 + (b1 mod 64) * 4096 + (b2 mod 64) * 64
                         + b3 mod 64, 4))"

text \<open>
  \<^verbatim>\<open>utf8.EncodeRune\<close>: the UTF-8 bytes of a rune; a rune that is no code point (negative,
  a surrogate, above \<^verbatim>\<open>U+10FFFF\<close>) is written as \<^verbatim>\<open>RuneError\<close>.
\<close>

definition EncodeRune :: "rune \<Rightarrow> string" where
  "EncodeRune r0 =
     (let r = (if r0 < 0 \<or> 0x10FFFF < r0 \<or> (0xD800 \<le> r0 \<and> r0 \<le> 0xDFFF)
               then RuneError else r0) in
      if r \<le> 0x7F then [char_of r]
      else if r \<le> 0x7FF then [char_of (0xC0 + r div 64), char_of (0x80 + r mod 64)]
      else if r \<le> 0xFFFF then
        [char_of (0xE0 + r div 4096), char_of (0x80 + (r div 64) mod 64),
         char_of (0x80 + r mod 64)]
      else
        [char_of (0xF0 + r div 262144), char_of (0x80 + (r div 4096) mod 64),
         char_of (0x80 + (r div 64) mod 64), char_of (0x80 + r mod 64)])"

text \<open>
  \<^verbatim>\<open>strings.Map\<close>: the result holds, for each rune of the string in turn, the encoding of
  the rune that the mapping returns, and nothing for a negative result. A valid sequence
  whose rune the mapping returns unchanged is therefore kept as it is, and a byte that is not
  valid UTF-8 comes out as the three bytes of \<^verbatim>\<open>RuneError\<close>.
\<close>

function strings_Map :: "(rune \<Rightarrow> rune) \<Rightarrow> string \<Rightarrow> string" where
  "strings_Map mapping [] = []"
| "strings_Map mapping (c # cs) =
     (let (c0, width) = DecodeRuneInString (c # cs);
          r = mapping c0
      in (if 0 \<le> r then EncodeRune r else []) @ strings_Map mapping (drop (width - 1) cs))"
  by pat_completeness auto
termination
  by (relation "measure (\<lambda>(mapping, s). length s)") auto

declare strings_Map.simps [simp del]

text \<open>
  \<^verbatim>\<open>unicode.IsSpace\<close>: in the Latin-1 range the runes listed in its switch statement,
  beyond it the runes of the \<^verbatim>\<open>White_Space\<close> table.
\<close>

definition IsSpace :: "rune \<Rightarrow> bool" where
  "IsSpace r =
     (if 0 \<le> r \<and> r \<le> 0xFF then r \<in> {0x09, 0x0A, 0x0B, 0x0C, 0x0D, 0x20, 0x85, 0xA0}
      else r = 0x1680 \<or> (0x2000 \<le> r \<and> r \<le> 0x200A) \<or> r = 0x2028 \<or> r = 0x2029 \<or>
           r = 0x202F \<or> r = 0x205F \<or> r = 0x3000)"

definition toInline :: "string \<Rightarrow> string" where
  "toInline s = strings_Map (\<lambda>r. if IsSpace r then 0x20 else r) s"

text \<open>The methods of \<^verbatim>\<open>Writer\<close>, as functions on the buffered bytes.\<close>

definition Writer_WriteError :: "string \<Rightarrow> string \<Rightarrow> string" where
  "Writer_WriteError e buf = buf @ ''-'' @ toInline e @ CRLF"

definition Writer_WriteLen :: "int \<Rightarrow> string \<Rightarrow> string" where
  "Writer_WriteLen n buf = buf @ ''*'' @ show_int n @ CRLF"

definition Writer_WriteBulk :: "string \<Rightarrow> string \<Rightarrow> string" where
  "Writer_WriteBulk s buf = buf @ ''$'' @ show_nat (length s) @ CRLF @ s @ CRLF"

definition Writer_WriteInt :: "int \<Rightarrow> string \<Rightarrow> string" where
  "Writer_WriteInt i buf = buf @ '':'' @ show_int i @ CRLF"

definition Writer_WriteNull :: "string \<Rightarrow> string" where
  "Writer_WriteNull buf = buf @ ''$-1'' @ CRLF"

definition Writer_WriteInline :: "string \<Rightarrow> string \<Rightarrow> string" where
  "Writer_WriteInline s buf = buf @ ''+'' @ toInline s @ CRLF"

text \<open>The methods of \<^verbatim>\<open>Peer\<close>. Only \<^verbatim>\<open>Flush\<close> reaches the socket.\<close>

definition Block :: "(string \<Rightarrow> string) \<Rightarrow> Peer \<Rightarrow> Peer" where
  "Block f c = c\<lparr>peer_w := f (peer_w c)\<rparr>"

definition WriteError :: "string \<Rightarrow> Peer \<Rightarrow> Peer" where
  "WriteError e c = Block (Writer_WriteError e) c"

definition WriteInline :: "string \<Rightarrow> Peer \<Rightarrow> Peer" where
  "WriteInline s c = Block (Writer_WriteInline s) c"

definition WriteOK_peer :: "Peer \<Rightarrow> Peer" where
  "WriteOK_peer c = WriteInline ''OK'' c"

definition WriteBulk :: "string \<Rightarrow> Peer \<Rightarrow> Peer" where
  "WriteBulk s c = Block (Writer_WriteBulk s) c"

definition WriteNull :: "Peer \<Rightarrow> Peer" where
  "WriteNull c = Block Writer_WriteNull c"

definition WriteLen :: "int \<Rightarrow> Peer \<Rightarrow> Peer" where
  "WriteLen n c = Block (Writer_WriteLen n) c"

definition WriteInt :: "int \<Rightarrow> Peer \<Rightarrow> Peer" where
  "WriteInt i c = Block (Writer_WriteInt i) c"

definition Peer_Close :: "Peer \<Rightarrow> Peer" where
  "Peer_Close c = c\<lparr>closed := True\<rparr>"

definition Flush :: "Peer \<times> Conn \<Rightarrow> Peer \<times> Conn" where
  "Flush pc =
     (let (c, conn) = pc in
      if conn_closed conn then (c, conn)
      else (c\<lparr>peer_w := []\<rparr>, conn\<lparr>sent := sent conn @ peer_w c\<rparr>))"

subsection \<open>Command handlers\<close>

text \<open>
  A \<^verbatim>\<open>Cmd\<close> is a callback \<^verbatim>\<open>func(c *Peer, cmd string, args []string)\<close>. The fields of
  \<^verbatim>\<open>Peer\<close> are unexported, so the only way a handler acts on the peer it is given is through
  the methods above. A handler is modelled by the sequence of method calls it makes on its
  peer for a command name and an argument list. A call of \<^verbatim>\<open>Block\<close> is the sequence of
  \<^verbatim>\<open>Writer\<close> calls of its callback; \<^verbatim>\<open>OnDisconnect\<close> only extends the callback list, which
  is left out.
\<close>

datatype peer_op =
  CallWriteError string
| CallWriteInline string
| CallWriteOK
| CallWriteBulk string
| CallWriteNull
| CallWriteLen int
| CallWriteInt int
| CallFlush
| CallClose

type_synonym Cmd = "string \<Rightarrow> string list \<Rightarrow> peer_op list"

fun call :: "peer_op \<Rightarrow> Peer \<times> Conn \<Rightarrow> Peer \<times> Conn" where
  "call (CallWriteError e) (c, conn) = (WriteError e c, conn)"
| "call (CallWriteInline s) (c, conn) = (WriteInline s c, conn)"
| "call CallWriteOK (c, conn) = (WriteOK_peer c, conn)"
| "call (CallWriteBulk s) (c, conn) = (WriteBulk s c, conn)"
| "call CallWriteNull (c, conn) = (WriteNull c, conn)"
| "call (CallWriteLen n) (c, conn) = (WriteLen n c, conn)"
| "call (CallWriteInt i) (c, conn) = (WriteInt i c, conn)"
| "call CallFlush (c, conn) = Flush (c, conn)"
| "call CallClose (c, conn) = (Peer_Close c, conn)"

definition calls :: "peer_op list \<Rightarrow> Peer \<times> Conn \<Rightarrow> Peer \<times> Conn" where
  "calls ops pc = foldl (\<lambda>st x. call x st) pc ops"




subsection \<open>The server\<close>

text \<open>
  Go's \<^verbatim>\<open>int\<close> is a 64-bit two's complement number on the usual platforms: a counter is a
  \<open>64 word\<close>, \<open>+\<close> wraps around and \<open>sint\<close> reads its value. A connection in the peer set
  is identified by a number. The listener, the mutex and the wait group are left out.
\<close>

type_synonym go_int = "64 word"

type_synonym conn_id = nat

record Server =
  cmds :: "string \<rightharpoonup> Cmd"
  peers :: "conn_id set"
  infoConns :: go_int
  infoCmds :: go_int

definition NewServer :: Server where
  "NewServer = \<lparr>cmds = Map.empty, peers = {}, infoConns = 0, infoCmds = 0\<rparr>"

text \<open>
  \<^verbatim>\<open>strings.ToUpper\<close> belongs to the Go library; the functions that call it take it as the
  parameter \<open>ToUpper\<close>. \<open>ToUpperASCII\<close> is its restriction to ASCII text.
\<close>

definition ToUpperASCII :: "string \<Rightarrow> string" where
  "ToUpperASCII s =
     map (\<lambda>r. if (97::nat) \<le> of_char r \<and> of_char r \<le> (122::nat)
              then char_of (of_char r - (32::nat)) else r) s"

definition Register :: "(string \<Rightarrow> string) \<Rightarrow> Server \<Rightarrow> string \<Rightarrow> Cmd \<Rightarrow> string + Server" where
  "Register ToUpper s cmd f =
     (let cmd = ToUpper cmd in
      case cmds s cmd of
        Some _ \<Rightarrow> Inl (''command already registered: '' @ cmd)
      | None \<Rightarrow> Inr (s\<lparr>cmds := (cmds s)(cmd \<mapsto> f)\<rparr>))"

text \<open>
  \<^verbatim>\<open>dispatch\<close> takes \<^verbatim>\<open>args[0]\<close> first: on an empty request Go panics. The lookup and
  the increment of \<^verbatim>\<open>infoCmds\<close> each run under the server mutex.
\<close>

definition dispatch ::
  "(string \<Rightarrow> string) \<Rightarrow> Server \<Rightarrow> Peer \<times> Conn \<Rightarrow> string list \<Rightarrow> panic + (Server \<times> Peer \<times> Conn)" where
  "dispatch ToUpper s pc args0 =
     (case args0 of
        [] \<Rightarrow> Inl IndexOutOfRange
      | cmd # args \<Rightarrow>
          let cmdUp = ToUpper cmd in
          (case cmds s cmdUp of
             None \<Rightarrow> Inr (s, WriteError (errUnknownCommand cmd args) (fst pc), snd pc)
           | Some cb \<Rightarrow> Inr (s\<lparr>infoCmds := infoCmds s + 1\<rparr>, calls (cb cmdUp args) pc)))"


definition TotalCommands :: "Server \<Rightarrow> go_int" where
  "TotalCommands s = infoCmds s"

definition TotalConnections :: "Server \<Rightarrow> go_int" where
  "TotalConnections s = infoConns s"

subsection \<open>The per-peer worker\<close>




subsection \<open>ServeConn and the interleaving of the workers\<close>

text \<open>
  \<^verbatim>\<open>ServeConn\<close> only starts a goroutine and returns. The goroutine registers the connection
  and increments \<^verbatim>\<open>infoConns\<close> under the server mutex, serves the peer, and takes the
  connection out of the peer set again. The scheduler decides when a started goroutine runs,
  so a run of the server is a sequence of events: a call of \<^verbatim>\<open>ServeConn\<close>, a started
  goroutine passing its first critical section, a worker leaving, a call of \<^verbatim>\<open>Register\<close>,
  a worker dispatching a request. \<open>spawned\<close> lists the goroutines started and not yet
  registered, \<open>serving\<close> those inside \<^verbatim>\<open>servePeer\<close>.
\<close>

record System =
  srv :: Server
  spawned :: "conn_id list"
  serving :: "conn_id list"

datatype event =
  EvServeConn conn_id
| EvWorkerEnter conn_id
| EvWorkerLeave conn_id
| EvRegister string Cmd
| EvDispatch conn_id "string list"

definition NewSystem :: System where
  "NewSystem = \<lparr>srv = NewServer, spawned = [], serving = []\<rparr>"

definition ServeConn :: "System \<Rightarrow> conn_id \<Rightarrow> System" where
  "ServeConn st conn = st\<lparr>spawned := spawned st @ [conn]\<rparr>"

definition worker_enter :: "Server \<Rightarrow> conn_id \<Rightarrow> Server" where
  "worker_enter s conn = s\<lparr>peers := insert conn (peers s), infoConns := infoConns s + 1\<rparr>"

definition worker_leave :: "Server \<Rightarrow> conn_id \<Rightarrow> Server" where
  "worker_leave s conn = s\<lparr>peers := peers s - {conn}\<rparr>"

text \<open>
  One event; \<open>None\<close> when the event cannot happen in the state (a goroutine that was never
  started, a worker that is not serving) or when the dispatch panics.
\<close>

fun step :: "(string \<Rightarrow> string) \<Rightarrow> System \<Rightarrow> event \<Rightarrow> System option" where
  "step ToUpper st (EvServeConn conn) = Some (ServeConn st conn)"
| "step ToUpper st (EvWorkerEnter conn) =
     (if conn \<in> set (spawned st)
      then Some (st\<lparr>srv := worker_enter (srv st) conn,
                     spawned := remove1 conn (spawned st),
                     serving := conn # serving st\<rparr>)
      else None)"
| "step ToUpper st (EvWorkerLeave conn) =
     (if conn \<in> set (serving st)
      then Some (st\<lparr>srv := worker_leave (srv st) conn,
                     serving := remove1 conn (serving st)\<rparr>)
      else None)"
| "step ToUpper st (EvRegister cmd f) =
     (case Register ToUpper (srv st) cmd f of
        Inl err \<Rightarrow> Some st
      | Inr s' \<Rightarrow> Some (st\<lparr>srv := s'\<rparr>))"
| "step ToUpper st (EvDispatch conn args) =
     (if conn \<in> set (serving st)
      then (case dispatch ToUpper (srv st)
                   (\<lparr>peer_w = [], closed = False\<rparr>, \<lparr>sent = [], conn_closed = False\<rparr>) args of
              Inl e \<Rightarrow> None
            | Inr (s', pc') \<Rightarrow> Some (st\<lparr>srv := s'\<rparr>))
      else None)"

fun run :: "(string \<Rightarrow> string) \<Rightarrow> System \<Rightarrow> event list \<Rightarrow> System option" where
  "run ToUpper st [] = Some st"
| "run ToUpper st (e # es) =
     (case step ToUpper st e of None \<Rightarrow> None | Some st' \<Rightarrow> run ToUpper st' es)"

fun served :: "event list \<Rightarrow> nat" where
  "served [] = 0"
| "served (EvServeConn conn # es) = Suc (served es)"
| "served (e # es) = served es"

fun entered :: "event list \<Rightarrow> nat" where
  "entered [] = 0"
| "entered (EvWorkerEnter conn # es) = Suc (entered es)"
| "entered (e # es) = entered es"

section \<open>miniredis.go: the keyspace\<close>

subsection \<open>Databases and connection contexts\<close>

text \<open>
  The types \<^verbatim>\<open>sortedSet\<close>, \<^verbatim>\<open>txCmd\<close> (a closure) and \<^verbatim>\<open>Subscriber\<close> are opaque here.
  \<^verbatim>\<open>uint\<close> is a 64-bit word, and so is \<^verbatim>\<open>time.Duration\<close> (read as signed). The field
  \<^verbatim>\<open>id\<close> is \<open>db_id\<close> and the field \<^verbatim>\<open>stringKeys\<close> is \<open>db_stringKeys\<close>; the back
  pointer \<^verbatim>\<open>master\<close> is left out.
\<close>

typedecl sortedSet
typedecl txCmd
typedecl Subscriber

type_synonym hashKey = "string \<rightharpoonup> string"
type_synonym listKey = "string list"
type_synonym setKey = "string set"
type_synonym uint = "64 word"
type_synonym Duration = "64 word"

record RedisDB =
  db_id :: int
  keys :: "string \<rightharpoonup> string"
  db_stringKeys :: "string \<rightharpoonup> string"
  hashKeys :: "string \<rightharpoonup> hashKey"
  listKeys :: "string \<rightharpoonup> listKey"
  setKeys :: "string \<rightharpoonup> setKey"
  sortedsetKeys :: "string \<rightharpoonup> sortedSet"
  ttl :: "string \<rightharpoonup> Duration"
  keyVersion :: "string \<rightharpoonup> uint"

definition newRedisDB :: "int \<Rightarrow> RedisDB" where
  "newRedisDB i =
     \<lparr>db_id = i, keys = Map.empty, db_stringKeys = Map.empty, hashKeys = Map.empty,
      listKeys = Map.empty, setKeys = Map.empty, sortedsetKeys = Map.empty,
      ttl = Map.empty, keyVersion = Map.empty\<rparr>"

text \<open>The pair \<^verbatim>\<open>dbKey{db, key}\<close>.\<close>

datatype dbKey = dbKey int string

text \<open>
  \<^verbatim>\<open>connCtx\<close>: the transaction buffer and the watch map are \<open>None\<close> when they are nil.
\<close>

record connCtx =
  ctx_selectedDB :: int
  authenticated :: bool
  transaction :: "txCmd list option"
  dirtyTransaction :: bool
  ctx_watch :: "(dbKey \<rightharpoonup> uint) option"
  subscriber :: "Subscriber option"

text \<open>
  \<^verbatim>\<open>watch\<close>: a read of a Go map at a missing key gives the zero value, and a nil watch map
  is replaced by an empty one before the write.
\<close>

definition watch :: "RedisDB \<Rightarrow> connCtx \<Rightarrow> string \<Rightarrow> connCtx" where
  "watch db ctx key =
     (let w = (case ctx_watch ctx of None \<Rightarrow> Map.empty | Some w \<Rightarrow> w);
          version = (case keyVersion db key of None \<Rightarrow> 0 | Some n \<Rightarrow> n)
      in ctx\<lparr>ctx_watch := Some (w(dbKey (db_id db) key \<mapsto> version))\<rparr>)"

text \<open>A read \<^verbatim>\<open>ctx.watch[k]\<close> with its presence flag: a nil map has no entry.\<close>

definition watched :: "connCtx \<Rightarrow> dbKey \<Rightarrow> uint option" where
  "watched ctx k = (case ctx_watch ctx of None \<Rightarrow> None | Some w \<Rightarrow> w k)"

definition unwatch :: "connCtx \<Rightarrow> connCtx" where
  "unwatch ctx = ctx\<lparr>ctx_watch := None\<rparr>"

subsection \<open>The random source\<close>

text \<open>
  A \<^verbatim>\<open>rand.Rand\<close> is the sequence of values it will yield and the position reached.
  \<^verbatim>\<open>Intn(n)\<close> panics unless \<open>0 < n\<close> and otherwise returns a number in \<open>[0, n)\<close>: the next
  value of the sequence, reduced modulo \<open>n\<close>, so every sequence of results that \<^verbatim>\<open>Intn\<close>
  can give is the result of some source.
\<close>

record Rand =
  rand_values :: "nat \<Rightarrow> nat"
  rand_pos :: nat

definition Intn :: "Rand \<Rightarrow> int \<Rightarrow> panic + (int \<times> Rand)" where
  "Intn r n =
     (if n \<le> 0 then Inl InvalidArgumentToIntn
      else Inr (int (rand_values r (rand_pos r)) mod n, r\<lparr>rand_pos := Suc (rand_pos r)\<rparr>))"

subsection \<open>Miniredis and its store of databases\<close>

text \<open>
  \<^verbatim>\<open>dbs\<close> maps a database number to a pointer. The \<^verbatim>\<open>RedisDB\<close> objects live in the
  store \<open>objs\<close>, and a pointer is an index into it: \<^verbatim>\<open>&db\<close> of a new object is the next free
  index, so a new object never shares its address with an older one. \<open>rand\<close> is \<open>None\<close> until
  \<^verbatim>\<open>Seed\<close> is called. The server, the condition variable, the clock and the mutex are left out.
\<close>

type_synonym addr = nat

record Miniredis =
  port :: int
  password :: string
  dbs :: "int \<rightharpoonup> addr"
  selectedDB :: int
  scripts :: "string \<rightharpoonup> string"
  subscribers :: "Subscriber set"
  rand :: "Rand option"
  objs :: "RedisDB list"

definition NewMiniRedis :: Miniredis where
  "NewMiniRedis =
     \<lparr>port = 0, password = [], dbs = Map.empty, selectedDB = 0, scripts = Map.empty,
      subscribers = {}, rand = None, objs = []\<rparr>"

definition db :: "Miniredis \<Rightarrow> int \<Rightarrow> addr \<times> Miniredis" where
  "db m i =
     (case dbs m i of
        Some a \<Rightarrow> (a, m)
      | None \<Rightarrow>
          let a = length (objs m) in
          (a, m\<lparr>objs := objs m @ [newRedisDB i], dbs := (dbs m)(i \<mapsto> a)\<rparr>))"

definition DB :: "Miniredis \<Rightarrow> int \<Rightarrow> addr \<times> Miniredis" where
  "DB m i = db m i"

text \<open>
  \<^verbatim>\<open>swapDB\<close> writes through the two pointers, in the order of the source: when both are
  the same object the second write to \<^verbatim>\<open>id\<close> wins.
\<close>

definition set_id :: "addr \<Rightarrow> int \<Rightarrow> Miniredis \<Rightarrow> Miniredis" where
  "set_id a i m = m\<lparr>objs := (objs m)[a := (objs m ! a)\<lparr>db_id := i\<rparr>]\<rparr>"

definition swapDB :: "Miniredis \<Rightarrow> int \<Rightarrow> int \<Rightarrow> bool \<times> Miniredis" where
  "swapDB m i j =
     (let (db1, m1) = db m i;
          (db2, m2) = db m1 j;
          m3 = set_id db1 j m2;
          m4 = set_id db2 i m3;
          m5 = m4\<lparr>dbs := (dbs m4)(i \<mapsto> db2)\<rparr>;
          m6 = m5\<lparr>dbs := (dbs m5)(j \<mapsto> db1)\<rparr>
      in (True, m6))"

definition SwapDB :: "Miniredis \<Rightarrow> int \<Rightarrow> int \<Rightarrow> bool \<times> Miniredis" where
  "SwapDB m i j = swapDB m i j"

definition RequireAuth :: "Miniredis \<Rightarrow> string \<Rightarrow> Miniredis" where
  "RequireAuth m pw = m\<lparr>password := pw\<rparr>"

text \<open>
  \<^verbatim>\<open>Dump\<close> starts with \<^verbatim>\<open>m.db(m.selectedDB)\<close>, which creates the selected database
  when it does not exist yet; this is the only change \<^verbatim>\<open>Dump\<close> makes to the state.
\<close>

definition Dump_db :: "Miniredis \<Rightarrow> addr \<times> Miniredis" where
  "Dump_db m = db m (selectedDB m)"

text \<open>
  The calls that reach the databases or change the Miniredis, and the states they reach from
  a new Miniredis.
\<close>

datatype api_call =
  Call_db int
| Call_DB int
| Call_SwapDB int int
| Call_RequireAuth string
| Call_Dump

fun api :: "Miniredis \<Rightarrow> api_call \<Rightarrow> Miniredis" where
  "api m (Call_db i) = snd (db m i)"
| "api m (Call_DB i) = snd (DB m i)"
| "api m (Call_SwapDB i j) = snd (SwapDB m i j)"
| "api m (Call_RequireAuth pw) = RequireAuth m pw"
| "api m Call_Dump = snd (Dump_db m)"

definition after :: "api_call list \<Rightarrow> Miniredis" where
  "after cs = foldl api NewMiniRedis cs"

text \<open>
  The invariant: the database stored under a number carries that number. The pointer is an
  index of the store.
\<close>

definition ids_ok :: "Miniredis \<Rightarrow> bool" where
  "ids_ok m = (\<forall>i a. dbs m i = Some a \<longrightarrow> a < length (objs m) \<and> db_id (objs m ! a) = i)"

subsection \<open>Dump\<close>

text \<open>
  The closure \<^verbatim>\<open>v\<close> of \<^verbatim>\<open>Dump\<close> formats every value that \<^verbatim>\<open>Dump\<close> prints. The verb
  \<^verbatim>\<open>%q\<close> of \<^verbatim>\<open>fmt\<close> is the parameter \<open>q\<close>. \<^verbatim>\<open>len\<close> counts bytes; the slice
  \<^verbatim>\<open>s[:n]\<close> panics unless \<open>0 \<le> n \<le> len(s)\<close>.
\<close>

definition maxLen :: int where
  "maxLen = 60"

definition Dump_v :: "(string \<Rightarrow> string) \<Rightarrow> string \<Rightarrow> panic + string" where
  "Dump_v q s =
     (if int (length s) > maxLen then
        let suffix = ''...('' @ show_int (int (length s)) @ '')'';
            n = maxLen - int (length suffix)
        in if n < 0 \<or> int (length s) < n then Inl SliceBoundsOutOfRange
           else Inr (q (take (nat n) s) @ suffix)
      else Inr (q s))"

text \<open>
  \<^verbatim>\<open>%q\<close> on ASCII text, as \<^verbatim>\<open>strconv.Quote\<close> writes it: double quotes around the
  text, a backslash before a double quote and a backslash, the short escapes for the control
  characters that have one and \<^verbatim>\<open>\x\<close> with two hexadecimal digits for the others.
\<close>

definition hexdigit :: "nat \<Rightarrow> char" where
  "hexdigit d = ''0123456789abcdef'' ! d"

definition quote_char :: "char \<Rightarrow> string" where
  "quote_char r =
     (let n = (of_char r :: nat) in
      if n = 0x22 \<or> n = 0x5C then [CHR 0x5C, r]
      else if 0x20 \<le> n \<and> n < 0x7F then [r]
      else if n = 7 then [CHR 0x5C, CHR ''a'']
      else if n = 8 then [CHR 0x5C, CHR ''b'']
      else if n = 12 then [CHR 0x5C, CHR ''f'']
      else if n = 10 then [CHR 0x5C, CHR ''n'']
      else if n = 13 then [CHR 0x5C, CHR ''r'']
      else if n = 9 then [CHR 0x5C, CHR ''t'']
      else if n = 11 then [CHR 0x5C, CHR ''v'']
      else [CHR 0x5C, CHR ''x'', hexdigit (n div 16), hexdigit (n mod 16)])"

definition quote :: "string \<Rightarrow> string" where
  "quote s = CHR 0x22 # concat (map quote_char s) @ [CHR 0x22]"

subsection \<open>shuffle\<close>

text \<open>
  \<^verbatim>\<open>randIntn\<close> draws from the seeded source of the Miniredis when there is one and from
  the global source of \<^verbatim>\<open>math/rand\<close> otherwise; the state is the pair of the global source
  and the Miniredis.
\<close>

definition randIntn :: "Rand \<times> Miniredis \<Rightarrow> int \<Rightarrow> panic + (int \<times> Rand \<times> Miniredis)" where
  "randIntn gm n =
     (let (g, m) = gm in
      case rand m of
        None \<Rightarrow> (case Intn g n of Inl e \<Rightarrow> Inl e | Inr (v, g') \<Rightarrow> Inr (v, g', m))
      | Some r \<Rightarrow>
          (case Intn r n of Inl e \<Rightarrow> Inl e | Inr (v, r') \<Rightarrow> Inr (v, g, m\<lparr>rand := Some r'\<rparr>)))"

text \<open>
  \<^verbatim>\<open>l[i], l[j] = l[j], l[i]\<close>: both elements are read before either is written, and an
  index outside the slice panics.
\<close>

definition swap :: "string list \<Rightarrow> int \<Rightarrow> int \<Rightarrow> panic + string list" where
  "swap l i j =
     (if 0 \<le> i \<and> i < int (length l) \<and> 0 \<le> j \<and> j < int (length l)
      then Inr (l[nat i := l ! nat j, nat j := l ! nat i])
      else Inl IndexOutOfRange)"

text \<open>
  \<^verbatim>\<open>for range l\<close> runs once for each element of the slice; the first argument counts the
  rounds left.
\<close>

fun shuffle_loop ::
  "nat \<Rightarrow> Rand \<times> Miniredis \<Rightarrow> string list \<Rightarrow> panic + (string list \<times> Rand \<times> Miniredis)" where
  "shuffle_loop 0 gm l = Inr (l, gm)"
| "shuffle_loop (Suc k) gm l =
     (case randIntn gm (int (length l)) of
        Inl e \<Rightarrow> Inl e
      | Inr (i, gm1) \<Rightarrow>
          (case randIntn gm1 (int (length l)) of
             Inl e \<Rightarrow> Inl e
           | Inr (j, gm2) \<Rightarrow>
               (case swap l i j of
                  Inl e \<Rightarrow> Inl e
                | Inr l' \<Rightarrow> shuffle_loop k gm2 l')))"

definition shuffle ::
  "Rand \<times> Miniredis \<Rightarrow> string list \<Rightarrow> panic + (string list \<times> Rand \<times> Miniredis)" where
  "shuffle gm l = shuffle_loop (length l) gm l"

chapter \<open>Properties\<close>

section \<open>SET and GET\<close>

text \<open>
  Claim C1. For every key \<open>k\<close> and value \<open>v\<close>, the SET handler with exactly the arguments
  \<open>k\<close> and \<open>v\<close> followed by the GET handler with the argument \<open>k\<close> returns the bulk string
  \<open>v\<close>; and for a key that the string keyspace does not hold, GET returns the null bulk reply.
\<close>

theorem set_then_get:
  "(\<exists>m'. handleSET m [k, v] = Inr (m', [WriteOK], None) \<and>
         handleGET m' [k] = Inr (m', [WriteString v], None)) \<and>
   (stringKeys m k = None \<longrightarrow> handleGET m [k] = Inr (m, [WriteNil], None))"
  by (simp add: handleSET_def handleGET_def)

theorem set_then_get_witness:
  "handleSET \<lparr>stringKeys = Map.empty, expire = (Map.empty :: string \<rightharpoonup> nat)\<rparr> [''foo'', ''bar'']
     = Inr (\<lparr>stringKeys = [''foo'' \<mapsto> ''bar''], expire = Map.empty\<rparr>, [WriteOK], None) \<and>
   handleGET \<lparr>stringKeys = [''foo'' \<mapsto> ''bar''], expire = (Map.empty :: string \<rightharpoonup> nat)\<rparr> [''foo'']
     = Inr (\<lparr>stringKeys = [''foo'' \<mapsto> ''bar''], expire = Map.empty\<rparr>, [WriteString ''bar''], None) \<and>
   handleGET \<lparr>stringKeys = [''foo'' \<mapsto> ''bar''], expire = (Map.empty :: string \<rightharpoonup> nat)\<rparr> [''mis'']
     = Inr (\<lparr>stringKeys = [''foo'' \<mapsto> ''bar''], expire = Map.empty\<rparr>, [WriteNil], None)"
proof -
  let ?m0 = "\<lparr>stringKeys = Map.empty, expire = (Map.empty :: string \<rightharpoonup> nat)\<rparr>"
  let ?m1 = "\<lparr>stringKeys = [''foo'' \<mapsto> ''bar''], expire = (Map.empty :: string \<rightharpoonup> nat)\<rparr>"
  have set: "handleSET ?m0 [''foo'', ''bar''] = Inr (?m1, [WriteOK], None)"
    by (simp add: handleSET_def)
  from set_then_get [of ?m0 "''foo''" "''bar''"] set
  have get: "handleGET ?m1 [''foo''] = Inr (?m1, [WriteString ''bar''], None)"
    by simp
  from set_then_get [of ?m1 "''mis''" "''x''"]
  have mis: "handleGET ?m1 [''mis''] = Inr (?m1, [WriteNil], None)"
    by simp
  from set get mis show ?thesis by blast
qed

text \<open>
  Claim C2. With more than two arguments (the EX, PX, NX and XX forms) the SET handler returns
  the unimplemented error, writes nothing and leaves the string keyspace and the expiry map as
  they were; the two-argument form stores the value and deletes the expiry entry of the key;
  and no other form changes the state.
\<close>

theorem set_options_unimplemented:
  "(2 < length args \<longrightarrow> handleSET m args = Inr (m, [], Some errUnimplemented)) \<and>
   handleSET m [k, v] =
     Inr (m\<lparr>stringKeys := (stringKeys m)(k \<mapsto> v), expire := (expire m)(k := None)\<rparr>,
          [WriteOK], None) \<and>
   (length args \<noteq> 2 \<longrightarrow> (\<exists>out err. handleSET m args = Inr (m, out, err)))"
  by (auto simp add: handleSET_def)

theorem set_options_unimplemented_witness:
  "handleSET \<lparr>stringKeys = [''k'' \<mapsto> ''old''], expire = [''k'' \<mapsto> (5::nat)]\<rparr>
      [''k'', ''v'', ''EX'', ''10'']
     = Inr (\<lparr>stringKeys = [''k'' \<mapsto> ''old''], expire = [''k'' \<mapsto> 5]\<rparr>, [],
            Some errUnimplemented)"
  using set_options_unimplemented [of "[''k'', ''v'', ''EX'', ''10'']"
     "\<lparr>stringKeys = [''k'' \<mapsto> ''old''], expire = [''k'' \<mapsto> (5::nat)]\<rparr>"]
  by simp

text \<open>
  Claim C6, as the code has it. The SET handler checks its argument count before it touches
  the keyspace: with fewer than two arguments it replies with the error \<^verbatim>\<open>Usage error\<close>,
  returns no error value and leaves the string keyspace and the expiry map unchanged.
  The claim names the reply \<^verbatim>\<open>ERR wrong number of arguments for 'set' command\<close>, which the
  handler does not send; and GET has no check of its argument count at all: on an empty
  argument list it panics.
\<close>

theorem set_arity_usage_error:
  "length args < 2 \<Longrightarrow> handleSET m args = Inr (m, [WriteErrorString ''Usage error''], None)"
  by (simp add: handleSET_def)

theorem set_arity_usage_error_witness:
  "handleSET \<lparr>stringKeys = [''k'' \<mapsto> ''old''], expire = [''k'' \<mapsto> (5::nat)]\<rparr> [''k'']
     = Inr (\<lparr>stringKeys = [''k'' \<mapsto> ''old''], expire = [''k'' \<mapsto> 5]\<rparr>,
            [WriteErrorString ''Usage error''], None)"
  using set_arity_usage_error [of "[''k'']"
     "\<lparr>stringKeys = [''k'' \<mapsto> ''old''], expire = [''k'' \<mapsto> (5::nat)]\<rparr>"]
  by simp

theorem arity_error_counterexample:
  "handleSET \<lparr>stringKeys = Map.empty, expire = (Map.empty :: string \<rightharpoonup> nat)\<rparr> [''k'']
     \<noteq> Inr (\<lparr>stringKeys = Map.empty, expire = Map.empty\<rparr>,
            [WriteErrorString ''ERR wrong number of arguments for 'set' command''], None) \<and>
   handleSET \<lparr>stringKeys = Map.empty, expire = (Map.empty :: string \<rightharpoonup> nat)\<rparr> [''k'']
     = Inr (\<lparr>stringKeys = Map.empty, expire = Map.empty\<rparr>,
            [WriteErrorString ''Usage error''], None) \<and>
   handleGET \<lparr>stringKeys = Map.empty, expire = (Map.empty :: string \<rightharpoonup> nat)\<rparr> []
     = Inl IndexOutOfRange"
  by (simp add: handleSET_def handleGET_def)

section \<open>WATCH\<close>

text \<open>
  Claim C3. For every connection context, database and key, \<^verbatim>\<open>watch\<close> records under the
  pair of the database's id and the key the current value of \<^verbatim>\<open>keyVersion[key]\<close>, and 0 when
  the key has no version entry; the entries of every other pair are as before, and so is the
  rest of the context.
\<close>

theorem watch_records_version:
  "ctx_watch (watch d ctx key) \<noteq> None \<and>
   watched (watch d ctx key) (dbKey (db_id d) key)
     = Some (case keyVersion d key of None \<Rightarrow> 0 | Some n \<Rightarrow> n) \<and>
   (\<forall>k'. k' \<noteq> dbKey (db_id d) key \<longrightarrow> watched (watch d ctx key) k' = watched ctx k') \<and>
   watch d ctx key = ctx\<lparr>ctx_watch := ctx_watch (watch d ctx key)\<rparr>"
  by (simp add: watch_def watched_def Let_def split: option.splits)

theorem watch_records_version_witness:
  "watched (watch ((newRedisDB 3)\<lparr>keyVersion := [''k'' \<mapsto> 7]\<rparr>)
              \<lparr>ctx_selectedDB = 3, authenticated = False, transaction = None,
               dirtyTransaction = False, ctx_watch = Some [dbKey 1 ''other'' \<mapsto> 4],
               subscriber = None\<rparr> ''k'') (dbKey 1 ''other'') = Some 4 \<and>
   watched (watch ((newRedisDB 3)\<lparr>keyVersion := [''k'' \<mapsto> 7]\<rparr>)
              \<lparr>ctx_selectedDB = 3, authenticated = False, transaction = None,
               dirtyTransaction = False, ctx_watch = Some [dbKey 1 ''other'' \<mapsto> 4],
               subscriber = None\<rparr> ''k'') (dbKey 3 ''k'') = Some 7 \<and>
   watched (watch (newRedisDB 3)
              \<lparr>ctx_selectedDB = 3, authenticated = False, transaction = None,
               dirtyTransaction = False, ctx_watch = None,
               subscriber = None\<rparr> ''k'') (dbKey 3 ''k'') = Some 0"
  using watch_records_version [of "(newRedisDB 3)\<lparr>keyVersion := [''k'' \<mapsto> 7]\<rparr>"
      "\<lparr>ctx_selectedDB = 3, authenticated = False, transaction = None,
               dirtyTransaction = False, ctx_watch = Some [dbKey 1 ''other'' \<mapsto> 4],
               subscriber = None\<rparr>" "''k''"]
    watch_records_version [of "newRedisDB 3"
      "\<lparr>ctx_selectedDB = 3, authenticated = False, transaction = None,
               dirtyTransaction = False, ctx_watch = None,
               subscriber = None\<rparr>" "''k''"]
  by (simp add: newRedisDB_def watched_def)

section \<open>Unknown commands\<close>

text \<open>
  On a string of ASCII bytes \<^verbatim>\<open>toInline\<close> works byte by byte; beyond ASCII it replaces
  the Unicode spaces too and rewrites bytes that are not valid UTF-8.
\<close>

lemma of_char_nonneg: "0 \<le> (of_char c :: int)"
  by (metis of_nat_of_char of_nat_0_le_iff)

lemma EncodeRune_ascii: "of_char c < (0x80 :: int) \<Longrightarrow> EncodeRune (of_char c) = [c]"
  using of_char_nonneg [of c] by (simp add: EncodeRune_def RuneError_def)

lemma EncodeRune_blank: "EncodeRune 0x20 = '' ''"
  by code_simp

lemma toInline_ascii:
  "\<forall>c \<in> set s. of_char c < (0x80 :: int) \<Longrightarrow>
     toInline s = map (\<lambda>c. if IsSpace (of_char c) then CHR '' '' else c) s"
  unfolding toInline_def
  by (induction s)
    (simp_all add: strings_Map.simps EncodeRune_ascii EncodeRune_blank of_char_nonneg Let_def)


lemma toInline_beyond_ascii:
  "toInline [CHR 0xC2, CHR 0xA0] = '' ''"
  "toInline [CHR 0xE2, CHR 0x80, CHR 0xA8] = '' ''"
  "toInline [CHR 0xC3, CHR 0xA9] = [CHR 0xC3, CHR 0xA9]"
  "toInline [CHR 0xFF] = [CHR 0xEF, CHR 0xBF, CHR 0xBD]"
  by code_simp+

lemma foldl_append_acc:
  "foldl (\<lambda>s a. s @ f a) acc xs = acc @ concat (map f xs)"
  by (induction xs arbitrary: acc) simp_all

lemma errUnknownCommand_eq:
  "errUnknownCommand cmd args =
     ''ERR unknown command `'' @ cmd @ ''`, with args beginning with: '' @
     concat (map (\<lambda>a. ''`'' @ a @ ''`, '') (take 20 args))"
  unfolding errUnknownCommand_def
  by (simp only: foldl_append_acc[of "\<lambda>a. ''`'' @ a @ ''`, ''"] append_assoc take_all_iff
      split: if_splits) (auto)

text \<open>
  Claim C5. When the upper-cased command name of a request has no registered handler,
  \<^verbatim>\<open>dispatch\<close> writes to the peer the error that starts with the unknown-command text and
  the command name as it was sent, followed by the arguments, each between backticks and
  followed by a comma and a blank, of which only the first 20 are listed; the server, and
  with it the commands counter, is unchanged. The error goes out as a RESP error line: a
  minus sign, the message as \<^verbatim>\<open>toInline\<close> leaves it, and the line end.
\<close>

theorem unknown_command_error:
  "cmds s (ToUpper cmd) = None \<Longrightarrow>
     dispatch ToUpper s (c, conn) (cmd # args) =
       Inr (s, WriteError (errUnknownCommand cmd args) c, conn) \<and>
     errUnknownCommand cmd args =
       ''ERR unknown command `'' @ cmd @ ''`, with args beginning with: '' @
       concat (map (\<lambda>a. ''`'' @ a @ ''`, '') (take 20 args)) \<and>
     peer_w (WriteError (errUnknownCommand cmd args) c) =
       peer_w c @ ''-'' @ toInline (errUnknownCommand cmd args) @ CRLF \<and>
     closed (WriteError (errUnknownCommand cmd args) c) = closed c"
  by (simp add: dispatch_def errUnknownCommand_eq WriteError_def Block_def Writer_WriteError_def)

theorem unknown_command_error_witness:
  "dispatch ToUpperASCII NewServer
      (\<lparr>peer_w = [], closed = False\<rparr>, \<lparr>sent = [], conn_closed = False\<rparr>)
      (''foo'' # replicate 21 ''x'') =
     Inr (NewServer,
          \<lparr>peer_w = ''-ERR unknown command `foo`, with args beginning with: '' @
                    concat (replicate 20 ''`x`, '') @ CRLF,
           closed = False\<rparr>,
          \<lparr>sent = [], conn_closed = False\<rparr>) \<and>
   dispatch ToUpperASCII NewServer
      (\<lparr>peer_w = [], closed = False\<rparr>, \<lparr>sent = [], conn_closed = False\<rparr>)
      [''foo'', [CHR 0xC2, CHR 0xA0]] =
     Inr (NewServer,
          \<lparr>peer_w = ''-ERR unknown command `foo`, with args beginning with: ` `, '' @ CRLF,
           closed = False\<rparr>,
          \<lparr>sent = [], conn_closed = False\<rparr>) \<and>
   TotalCommands NewServer = 0"
proof -
  let ?msg = "''ERR unknown command `foo`, with args beginning with: '' @
                concat (replicate 20 ''`x`, '')"
  have msg: "errUnknownCommand ''foo'' (replicate 21 ''x'') = ?msg"
    by (simp add: errUnknownCommand_eq)
  have "\<forall>c \<in> set ?msg. of_char c < (0x80 :: int)"
    by simp
  from toInline_ascii [OF this] have inl: "toInline ?msg = ?msg"
    by (simp add: IsSpace_def map_concat)
  from unknown_command_error [of NewServer ToUpperASCII "''foo''"
      "\<lparr>peer_w = [], closed = False\<rparr>" "\<lparr>sent = [], conn_closed = False\<rparr>" "replicate 21 ''x''"]
  have d: "dispatch ToUpperASCII NewServer
      (\<lparr>peer_w = [], closed = False\<rparr>, \<lparr>sent = [], conn_closed = False\<rparr>)
      (''foo'' # replicate 21 ''x'') =
     Inr (NewServer, WriteError (errUnknownCommand ''foo'' (replicate 21 ''x''))
            \<lparr>peer_w = [], closed = False\<rparr>, \<lparr>sent = [], conn_closed = False\<rparr>)"
    by (simp add: NewServer_def)
  have w: "WriteError (errUnknownCommand ''foo'' (replicate 21 ''x'')) \<lparr>peer_w = [], closed = False\<rparr>
      = \<lparr>peer_w = ''-'' @ ?msg @ CRLF, closed = False\<rparr>"
    unfolding msg WriteError_def Block_def Writer_WriteError_def inl by simp
  have nbsp: "toInline (errUnknownCommand ''foo'' [[CHR 0xC2, CHR 0xA0]]) =
      ''ERR unknown command `foo`, with args beginning with: ` `, ''"
    by code_simp
  from unknown_command_error [of NewServer ToUpperASCII "''foo''"
      "\<lparr>peer_w = [], closed = False\<rparr>" "\<lparr>sent = [], conn_closed = False\<rparr>"
      "[[CHR 0xC2, CHR 0xA0]]"]
  have d2: "dispatch ToUpperASCII NewServer
      (\<lparr>peer_w = [], closed = False\<rparr>, \<lparr>sent = [], conn_closed = False\<rparr>)
      [''foo'', [CHR 0xC2, CHR 0xA0]] =
     Inr (NewServer, WriteError (errUnknownCommand ''foo'' [[CHR 0xC2, CHR 0xA0]])
            \<lparr>peer_w = [], closed = False\<rparr>, \<lparr>sent = [], conn_closed = False\<rparr>)"
    by (simp add: NewServer_def)
  have w2: "WriteError (errUnknownCommand ''foo'' [[CHR 0xC2, CHR 0xA0]])
        \<lparr>peer_w = [], closed = False\<rparr>
      = \<lparr>peer_w = ''-ERR unknown command `foo`, with args beginning with: ` `, '' @ CRLF,
         closed = False\<rparr>"
    unfolding WriteError_def Block_def Writer_WriteError_def nbsp by simp
  from d [unfolded w] d2 [unfolded w2] show ?thesis
    by (simp add: TotalCommands_def NewServer_def)
qed

section \<open>shuffle\<close>

lemma randIntn_range:
  "0 < n \<Longrightarrow> \<exists>v gm'. randIntn gm n = Inr (v, gm') \<and> 0 \<le> v \<and> v < n"
  by (cases gm) (auto simp: randIntn_def Intn_def split: option.splits)

lemma swap_perm:
  "0 \<le> i \<Longrightarrow> i < int (length l) \<Longrightarrow> 0 \<le> j \<Longrightarrow> j < int (length l) \<Longrightarrow>
     \<exists>l'. swap l i j = Inr l' \<and> mset l' = mset l \<and> length l' = length l"
  by (simp add: swap_def mset_swap)

lemma shuffle_loop_perm:
  "k = 0 \<or> l \<noteq> [] \<Longrightarrow>
     \<exists>l' gm'. shuffle_loop k gm l = Inr (l', gm') \<and> mset l' = mset l \<and> length l' = length l"
proof (induction k arbitrary: gm l)
  case 0
  then show ?case by simp
next
  case (Suc k)
  then have pos: "0 < int (length l)" by simp
  from randIntn_range [OF pos, of gm] obtain i gm1
    where i: "randIntn gm (int (length l)) = Inr (i, gm1)" "0 \<le> i" "i < int (length l)"
    by blast
  from randIntn_range [OF pos, of gm1] obtain j gm2
    where j: "randIntn gm1 (int (length l)) = Inr (j, gm2)" "0 \<le> j" "j < int (length l)"
    by blast
  from swap_perm [OF i(2) i(3) j(2) j(3)] obtain l1
    where l1: "swap l i j = Inr l1" "mset l1 = mset l" "length l1 = length l"
    by blast
  from Suc.prems l1 have "k = 0 \<or> l1 \<noteq> []" by auto
  from Suc.IH [OF this, of gm2] obtain l' gm'
    where "shuffle_loop k gm2 l1 = Inr (l', gm')" "mset l' = mset l1" "length l' = length l1"
    by blast
  with i j l1 show ?case by simp
qed

text \<open>
  Claim C10. For every slice and every random source, seeded or global, \<^verbatim>\<open>shuffle\<close>
  returns without a panic, and the slice it leaves is a permutation of the one it was given:
  the same length and the same multiset of elements.
\<close>

theorem shuffle_permutation:
  "\<exists>l' gm'. shuffle gm l = Inr (l', gm') \<and> mset l' = mset l \<and> length l' = length l"
  unfolding shuffle_def by (rule shuffle_loop_perm) auto

section \<open>The deferred close\<close>

















section \<open>The connection counter\<close>

lemma sint_of_nat_small:
  "n < 2 ^ 63 \<Longrightarrow> sint (of_nat n :: 64 word) = int n"
proof -
  assume n: "n < 2 ^ 63"
  then have "int n < 2 ^ 63" by (metis of_nat_less_iff of_nat_numeral of_nat_power)
  then have "signed_take_bit 63 (int n) = int n"
    by (simp add: signed_take_bit_int_eq_self)
  then show ?thesis by (simp add: signed_of_nat)
qed

lemma length_remove1_Suc: "x \<in> set xs \<Longrightarrow> Suc (length (remove1 x xs)) = length xs"
  using length_pos_if_in_set [of x xs] by (simp add: length_remove1)

lemma step_counts:
  "step U st e = Some st' \<Longrightarrow>
     infoConns (srv st') = infoConns (srv st) + of_nat (entered [e]) \<and>
     entered [e] + length (spawned st') = served [e] + length (spawned st)"
  by (cases e)
    (auto simp: ServeConn_def worker_enter_def worker_leave_def Register_def dispatch_def
      Let_def length_remove1_Suc split: if_splits sum.splits option.splits list.splits)

lemma served_append: "served (es @ es') = served es + served es'"
  by (induction es rule: served.induct) simp_all

lemma entered_append: "entered (es @ es') = entered es + entered es'"
  by (induction es rule: entered.induct) simp_all

lemma run_counts:
  "run U st es = Some st' \<Longrightarrow>
     infoConns (srv st') = infoConns (srv st) + of_nat (entered es) \<and>
     entered es + length (spawned st') = served es + length (spawned st)"
proof (induction es arbitrary: st)
  case Nil
  then show ?case by simp
next
  case (Cons e es)
  from Cons.prems obtain st1 where s1: "step U st e = Some st1" and r: "run U st1 es = Some st'"
    by (auto split: option.splits)
  from step_counts [OF s1] Cons.IH [OF r]
  have "infoConns (srv st') = infoConns (srv st) + of_nat (entered [e]) + of_nat (entered es)"
    and "entered [e] + entered es + length (spawned st') = served [e] + served es + length (spawned st)"
    by simp_all
  moreover have "entered (e # es) = entered [e] + entered es"
    using entered_append [of "[e]" es] by simp
  moreover have "served (e # es) = served [e] + served es"
    using served_append [of "[e]" es] by simp
  ultimately show ?case by simp
qed

lemma run_append:
  "run U st es = Some st1 \<Longrightarrow> run U st (es @ es') = run U st1 es'"
  by (induction es arbitrary: st) (auto split: option.splits)

text \<open>
  Claim C7, as the code has it. Over every run of the server that starts fewer than
  \<open>2\<^sup>6\<^sup>3\<close> connections, \<^verbatim>\<open>TotalConnections\<close> never decreases, and it is the number of
  goroutines started by \<^verbatim>\<open>ServeConn\<close> that have registered their connection. That number and
  the number of goroutines started and not yet registered add up to the number of calls of
  \<^verbatim>\<open>ServeConn\<close>: the counter never exceeds the calls, and equals them when no started
  goroutine is still waiting. Right after a call of \<^verbatim>\<open>ServeConn\<close> the counter can lag behind.
\<close>

theorem total_connections_counts_entered:
  assumes "run ToUpper NewSystem es = Some st"
    and "run ToUpper st es' = Some st'"
    and "served (es @ es') < 2 ^ 63"
  shows "sint (TotalConnections (srv st)) \<le> sint (TotalConnections (srv st')) \<and>
         sint (TotalConnections (srv st')) = int (entered (es @ es')) \<and>
         entered (es @ es') + length (spawned st') = served (es @ es')"
proof -
  from run_counts [OF assms(1)]
  have c1: "infoConns (srv st) = of_nat (entered es)"
    and l1: "entered es + length (spawned st) = served es"
    by (simp_all add: NewSystem_def NewServer_def)
  from assms(1,2) have "run ToUpper NewSystem (es @ es') = Some st'"
    by (simp add: run_append)
  from run_counts [OF this]
  have c2: "infoConns (srv st') = of_nat (entered (es @ es'))"
    and l2: "entered (es @ es') + length (spawned st') = served (es @ es')"
    by (simp_all add: NewSystem_def NewServer_def)
  from l2 assms(3) have b2: "entered (es @ es') < 2 ^ 63" by linarith
  then have b1: "entered es < 2 ^ 63" by (simp add: entered_append)
  have "sint (TotalConnections (srv st)) = int (entered es)"
    unfolding TotalConnections_def c1 by (rule sint_of_nat_small [OF b1])
  moreover have "sint (TotalConnections (srv st')) = int (entered (es @ es'))"
    unfolding TotalConnections_def c2 by (rule sint_of_nat_small [OF b2])
  ultimately show ?thesis using l2 by (simp add: entered_append)
qed


theorem total_connections_counterexample:
  "run ToUpperASCII NewSystem [EvServeConn 0] =
     Some \<lparr>srv = NewServer, spawned = [0], serving = []\<rparr> \<and>
   sint (TotalConnections NewServer) = 0 \<and>
   served [EvServeConn 0] = 1"
  by (simp add: NewSystem_def ServeConn_def TotalConnections_def NewServer_def)

theorem total_connections_counts_entered_witness:
  "run ToUpperASCII NewSystem [EvServeConn 0, EvServeConn 1] =
     Some \<lparr>srv = NewServer, spawned = [0, 1], serving = []\<rparr> \<and>
   run ToUpperASCII \<lparr>srv = NewServer, spawned = [0, 1], serving = []\<rparr> [EvWorkerEnter 1] =
     Some \<lparr>srv = NewServer\<lparr>peers := {1}, infoConns := 1\<rparr>, spawned = [0], serving = [1]\<rparr> \<and>
   sint (TotalConnections (NewServer\<lparr>peers := {1}, infoConns := 1\<rparr>)) = 1 \<and>
   sint (TotalConnections NewServer) \<le> sint (TotalConnections (NewServer\<lparr>peers := {1}, infoConns := 1\<rparr>))"
proof -
  have r1: "run ToUpperASCII NewSystem [EvServeConn 0, EvServeConn 1] =
     Some \<lparr>srv = NewServer, spawned = [0, 1], serving = []\<rparr>"
    by (simp add: NewSystem_def ServeConn_def)
  have r2: "run ToUpperASCII \<lparr>srv = NewServer, spawned = [0, 1], serving = []\<rparr> [EvWorkerEnter 1] =
     Some \<lparr>srv = NewServer\<lparr>peers := {1}, infoConns := 1\<rparr>, spawned = [0], serving = [1]\<rparr>"
    by (simp add: worker_enter_def NewServer_def)
  have b: "served ([EvServeConn 0, EvServeConn 1] @ [EvWorkerEnter 1]) < 2 ^ 63"
    by simp
  from total_connections_counts_entered [OF r1 r2 b] r1 r2 show ?thesis
    by simp
qed

section \<open>Dump\<close>

lemma length_show_nat: "0 < k \<Longrightarrow> n < 10 ^ k \<Longrightarrow> length (show_nat n) \<le> k"
proof (induction k arbitrary: n)
  case 0
  then show ?case by simp
next
  case (Suc k)
  show ?case
  proof (cases "n < 10")
    case True
    then show ?thesis by simp
  next
    case False
    with Suc.prems have k: "0 < k" by (cases k) auto
    from Suc.prems have "n div 10 < 10 ^ k" by (simp add: less_mult_imp_div_less mult.commute)
    from Suc.IH [OF k this] False show ?thesis by (subst show_nat.simps) simp
  qed
qed

lemma suffix_length:
  assumes "n < 2 ^ 63"
  shows "length (''...('' @ show_nat n @ '')'') \<le> 24"
proof -
  have "(2::nat) ^ 63 < 10 ^ 19" by simp
  with assms have "n < 10 ^ 19" by linarith
  then have "length (show_nat n) \<le> 19" by (intro length_show_nat) simp_all
  then show ?thesis by simp
qed

text \<open>
  Claim C8, as the code has it. \<^verbatim>\<open>Dump\<close> prints a value of at most 60 bytes whole, in the
  quoted form of \<^verbatim>\<open>%q\<close>. A longer value is cut so that the bytes kept and the suffix
  \<^verbatim>\<open>...(N)\<close>, with \<open>N\<close> the length of the value, are 60 bytes together: it prints the quoted
  form of the first \<open>60 - len(suffix)\<close> bytes, then the suffix. The prefix kept is shorter than
  60 bytes, by the length of the suffix (at most 24).
\<close>

theorem dump_truncates:
  "(length s \<le> 60 \<longrightarrow> Dump_v q s = Inr (q s)) \<and>
   (60 < length s \<and> length s < 2 ^ 63 \<longrightarrow>
      (let suffix = ''...('' @ show_nat (length s) @ '')'';
           kept = take (60 - length suffix) s
       in Dump_v q s = Inr (q kept @ suffix) \<and>
          length kept + length suffix = 60 \<and>
          length suffix \<le> 24))"
proof -
  have short: "length s \<le> 60 \<Longrightarrow> Dump_v q s = Inr (q s)"
    by (simp add: Dump_v_def maxLen_def)
  have long: "Dump_v q s = Inr (q (take (60 - length suffix) s) @ suffix) \<and>
      length (take (60 - length suffix) s) + length suffix = 60 \<and> length suffix \<le> 24"
    if big: "60 < length s" and fits: "length s < 2 ^ 63"
      and suffix: "suffix = ''...('' @ show_nat (length s) @ '')''" for suffix
  proof -
    from suffix_length [OF fits] suffix have le: "length suffix \<le> 24" by simp
    have si: "show_int (int (length s)) = show_nat (length s)"
      by (simp add: show_int_def)
    have n: "nat (60 - int (length suffix)) = 60 - length suffix"
      using le by simp
    from big le have "Dump_v q s = Inr (q (take (60 - length suffix) s) @ suffix)"
      unfolding Dump_v_def maxLen_def Let_def si suffix [symmetric] n [symmetric]
      by (simp del: show_nat.simps)
    moreover from big le have "length (take (60 - length suffix) s) + length suffix = 60"
      by simp
    ultimately show ?thesis using le by simp
  qed
  show ?thesis
    unfolding Let_def using short long [OF _ _ refl] by blast
qed

theorem dump_truncates_witness:
  "Dump_v quote ''short'' = Inr (CHR 0x22 # ''short'' @ [CHR 0x22]) \<and>
   Dump_v quote (replicate 61 (CHR ''a'')) =
     Inr (CHR 0x22 # replicate 53 (CHR ''a'') @ [CHR 0x22] @ ''...(61)'')"
  using dump_truncates [of "''short''" quote] dump_truncates [of "replicate 61 (CHR ''a'')" quote]
  by (simp add: Let_def quote_def quote_char_def digit_def map_replicate_const)

theorem dump_prefix_counterexample:
  "Dump_v quote (replicate 61 (CHR ''a'')) =
     Inr (CHR 0x22 # replicate 53 (CHR ''a'') @ [CHR 0x22] @ ''...(61)'') \<and>
   Dump_v quote (replicate 61 (CHR ''a'')) \<noteq>
     Inr (quote (take 60 (replicate 61 (CHR ''a''))) @ ''...(61)'')"
  by (simp add: Dump_v_def maxLen_def Let_def show_int_def quote_def quote_char_def digit_def
      )

section \<open>Database ids\<close>

lemma ids_ok_NewMiniRedis: "ids_ok NewMiniRedis"
  by (simp add: ids_ok_def NewMiniRedis_def)

lemma db_ids_ok: "ids_ok m \<Longrightarrow> ids_ok (snd (db m i))"
  by (auto simp: ids_ok_def db_def Let_def nth_append newRedisDB_def less_Suc_eq
      split: option.splits)

lemma db_lookup: "dbs (snd (db m i)) i = Some (fst (db m i))"
  by (simp add: db_def Let_def split: option.splits)

lemma db_keeps: "dbs m k = Some a \<Longrightarrow> dbs (snd (db m i)) k = Some a"
  by (auto simp: db_def Let_def split: option.splits)

lemma db_idempotent: "db (snd (db m i)) i = (fst (db m i), snd (db m i))"
  by (simp add: db_def Let_def split: option.splits)

lemma swap_ids:
  assumes ok: "ids_ok m" and i: "dbs m i = Some a" and j: "dbs m j = Some b"
  shows "ids_ok ((set_id b i (set_id a j m))\<lparr>dbs := (dbs m)(i \<mapsto> b, j \<mapsto> a)\<rparr>)"
  using assms
  by (auto simp: ids_ok_def set_id_def nth_list_update)

lemma swapDB_ids_ok:
  assumes "ids_ok m"
  shows "ids_ok (snd (swapDB m i j))"
proof -
  obtain a m1 where d1: "db m i = (a, m1)" by (cases "db m i")
  obtain b m2 where d2: "db m1 j = (b, m2)" by (cases "db m1 j")
  from assms d1 have ok1: "ids_ok m1" using db_ids_ok [of m i] by simp
  from ok1 d2 have ok2: "ids_ok m2" using db_ids_ok [of m1 j] by simp
  from d1 have "dbs m1 i = Some a" using db_lookup [of m i] by simp
  with d2 have i2: "dbs m2 i = Some a" using db_keeps [of m1 i a j] by simp
  from d2 have j2: "dbs m2 j = Some b" using db_lookup [of m1 j] by simp
  have "snd (swapDB m i j) = (set_id b i (set_id a j m2))\<lparr>dbs := (dbs m2)(i \<mapsto> b, j \<mapsto> a)\<rparr>"
    by (simp add: swapDB_def d1 d2 Let_def set_id_def)
  with swap_ids [OF ok2 i2 j2] show ?thesis by simp
qed

lemma api_ids_ok: "ids_ok m \<Longrightarrow> ids_ok (api m c)"
  by (cases c)
    (simp_all add: DB_def SwapDB_def Dump_db_def db_ids_ok swapDB_ids_ok RequireAuth_def
      ids_ok_def [of "m\<lparr>password := pw\<rparr>" for pw] ids_ok_def [of m])

lemma foldl_api_ids_ok: "ids_ok m \<Longrightarrow> ids_ok (foldl api m cs)"
  by (induction cs arbitrary: m) (simp_all add: api_ids_ok)

text \<open>
  Claim C9. In every state reached from a new Miniredis by calls of \<^verbatim>\<open>db\<close>, \<^verbatim>\<open>DB\<close>,
  \<^verbatim>\<open>SwapDB\<close>, \<^verbatim>\<open>RequireAuth\<close> and \<^verbatim>\<open>Dump\<close>, the database stored under a number has
  that number as its id; \<^verbatim>\<open>db\<close>, \<^verbatim>\<open>DB\<close> and \<^verbatim>\<open>SwapDB\<close> preserve the invariant; and a
  second \<^verbatim>\<open>db(i)\<close> returns the database of the first and changes nothing.
\<close>

theorem db_ids_invariant:
  "ids_ok (after cs) \<and>
   (ids_ok m \<longrightarrow> ids_ok (snd (db m i)) \<and> ids_ok (snd (DB m i)) \<and> ids_ok (snd (SwapDB m i j))) \<and>
   db (snd (db m i)) i = (fst (db m i), snd (db m i))"
  by (simp add: after_def foldl_api_ids_ok ids_ok_NewMiniRedis DB_def SwapDB_def db_ids_ok
      swapDB_ids_ok db_idempotent)

theorem db_ids_invariant_witness:
  "dbs (after [Call_DB 5, Call_SwapDB 5 2]) 5 = Some 1 \<and>
   db_id (objs (after [Call_DB 5, Call_SwapDB 5 2]) ! 1) = 5 \<and>
   dbs (after [Call_DB 5, Call_SwapDB 5 2]) 2 = Some 0 \<and>
   db_id (objs (after [Call_DB 5, Call_SwapDB 5 2]) ! 0) = 2 \<and>
   ids_ok (snd (db (after [Call_DB 5, Call_SwapDB 5 2]) 7)) \<and>
   fst (db (snd (db NewMiniRedis 7)) 7) = fst (db NewMiniRedis 7)"
proof -
  let ?m = "after [Call_DB 5, Call_SwapDB 5 2]"
  have inv: "ids_ok ?m" and pres: "ids_ok ?m \<longrightarrow> ids_ok (snd (db ?m 7))"
    and idem: "db (snd (db NewMiniRedis 7)) 7 = (fst (db NewMiniRedis 7), snd (db NewMiniRedis 7))"
    using db_ids_invariant [of "[Call_DB 5, Call_SwapDB 5 2]" ?m 7 0]
      db_ids_invariant [of "[]" NewMiniRedis 7 0] by simp_all
  have five: "dbs ?m 5 = Some 1" and two: "dbs ?m 2 = Some 0"
    by (simp_all add: after_def DB_def SwapDB_def swapDB_def db_def NewMiniRedis_def set_id_def
        Let_def)
  from inv five two pres idem show ?thesis
    by (simp add: ids_ok_def)
qed

end
